theory Spec2Isabelle
  imports Complex_Main
begin

section \<open>Python values\<close>

text \<open>
  A Python \<open>str\<close> is a sequence of Unicode code points; \<open>str.strip\<close> and the
  \<open>in\<close> test of \<open>temple_history_app.py\<close> work on code points, and the selectbox labels
  start with code points beyond one byte. A string is therefore a list of code points,
  and \<open>lit\<close> turns an ASCII literal into one.
\<close>

type_synonym pystr = "nat list"

definition lit :: "string \<Rightarrow> pystr" where
  "lit s = map of_char s"

text \<open>
  The values that reach the code from outside (the body of the geolocation response
  once \<open>response.json()\<close> has decoded it, the reading of the GPS component) are
  dynamically typed. \<open>PNum\<close> stands for both \<open>int\<close> and \<open>float\<close>: the code only tests
  numbers for truth and for being different from zero, formats them and hands them to
  SQLite. NaN is not represented. A dictionary is an association list; \<open>map_of\<close>
  looks a key up.
\<close>

datatype pyval =
    PNone
  | PBool bool
  | PNum real
  | PStr pystr
  | PList "pyval list"
  | PDict "(pystr \<times> pyval) list"

datatype py_error = KeyError | TypeError | ValueError | SqliteError






text \<open>\<open>sub in s\<close> on strings: \<open>sub\<close> occurs in \<open>s\<close> as a contiguous run.\<close>

fun starts_with :: "pystr \<Rightarrow> pystr \<Rightarrow> bool" where
  "starts_with [] s = True"
| "starts_with (p # ps) [] = False"
| "starts_with (p # ps) (c # cs) = (p = c \<and> starts_with ps cs)"

fun py_in :: "pystr \<Rightarrow> pystr \<Rightarrow> bool" where
  "py_in sub [] = (sub = [])"
| "py_in sub (c # cs) = (starts_with sub (c # cs) \<or> py_in sub cs)"

text \<open>
  \<open>str.strip()\<close> removes leading and trailing whitespace; the whitespace code points
  are those for which \<open>str.isspace\<close> holds.
\<close>

definition py_isspace :: "nat \<Rightarrow> bool" where
  "py_isspace c \<longleftrightarrow>
     (9 \<le> c \<and> c \<le> 13) \<or> (28 \<le> c \<and> c \<le> 32) \<or> c = 133 \<or> c = 160 \<or> c = 5760 \<or>
     (8192 \<le> c \<and> c \<le> 8202) \<or> c = 8232 \<or> c = 8233 \<or> c = 8239 \<or> c = 8287 \<or> c = 12288"

definition strip :: "pystr \<Rightarrow> pystr" where
  "strip s = rev (dropWhile py_isspace (rev (dropWhile py_isspace s)))"

text \<open>\<open>s or d\<close> on strings: \<open>d\<close> when \<open>s\<close> is empty, else \<open>s\<close>.\<close>

definition str_or :: "pystr \<Rightarrow> pystr \<Rightarrow> pystr" where
  "str_or s d = (if s = [] then d else s)"

section \<open>The database\<close>

text \<open>
  The four tables of \<open>init_database\<close>. A row lists the columns in the order of the
  \<open>CREATE TABLE\<close> statement, without \<open>id\<close> and the timestamp, which SQLite assigns.
  A column an \<open>INSERT\<close> does not name is NULL (\<open>None\<close>). The coordinate columns hold
  the Python value that was bound (\<open>PNone\<close> is NULL); the conversions of SQLite's column
  affinity are not modelled.
\<close>

record temple_row =
  t_name :: pystr
  t_location_address :: "pystr option"
  t_latitude :: pyval
  t_longitude :: pyval
  t_location_accuracy :: "real option"
  t_built_year :: "pystr option"
  t_deity :: "pystr option"
  t_architecture_style :: "pystr option"
  t_description :: "pystr option"
  t_contributor_name :: "pystr option"

record media_row =
  m_temple_id :: "nat option"
  m_media_type :: pystr
  m_filename :: pystr
  m_file_data :: "nat list option"
  m_file_size :: "nat option"
  m_description :: "pystr option"
  m_latitude :: pyval
  m_longitude :: pyval
  m_contributor_name :: "pystr option"

record contribution_row =
  c_title :: pystr
  c_content_type :: pystr
  c_description :: "pystr option"
  c_latitude :: pyval
  c_longitude :: pyval
  c_location_address :: "pystr option"
  c_contributor_name :: "pystr option"
  c_file_data :: "nat list option"
  c_filename :: "pystr option"
  c_file_size :: "nat option"

record event_row =
  e_temple_id :: "nat option"
  e_event_date :: "pystr option"
  e_event_title :: "pystr option"
  e_event_description :: "pystr option"
  e_latitude :: pyval
  e_longitude :: pyval
  e_contributor_name :: "pystr option"

record db =
  temples :: "temple_row list"
  temple_media :: "media_row list"
  content_contributions :: "contribution_row list"
  historical_events :: "event_row list"

text \<open>
  A \<open>sqlite3\<close> connection: the committed database and the connection's own view of it,
  which holds the rows of the open transaction. \<open>execute\<close> of an \<open>INSERT\<close> changes the
  view, \<open>commit\<close> makes the view the committed database, \<open>close\<close> drops what was not
  committed.

  A statement can fail for reasons outside the program (a locked or full database).
  \<open>storage_env\<close> says which: \<open>execute_fails k\<close> when the \<open>k\<close>-th \<open>execute\<close> of the
  connection raises (counted from 0), \<open>commit_fails\<close> when \<open>commit\<close> raises.
  Binding a list or a dict to a parameter raises as well (\<open>sqlite3.ProgrammingError\<close>).
\<close>

record conn =
  committed :: db
  working :: db

record storage_env =
  execute_fails :: "nat \<Rightarrow> bool"
  commit_fails :: bool

definition connect :: "db \<Rightarrow> conn" where
  "connect d = \<lparr>committed = d, working = d\<rparr>"

fun bindable :: "pyval \<Rightarrow> bool" where
  "bindable (PList xs) = False"
| "bindable (PDict kvs) = False"
| "bindable v = True"

definition execute :: "storage_env \<Rightarrow> nat \<Rightarrow> pyval list \<Rightarrow> (db \<Rightarrow> db) \<Rightarrow> conn \<Rightarrow> py_error + conn" where
  "execute env k params ins c =
     (if list_all bindable params \<and> \<not> execute_fails env k
      then Inr (c\<lparr>working := ins (working c)\<rparr>)
      else Inl SqliteError)"

definition commit :: "storage_env \<Rightarrow> conn \<Rightarrow> py_error + conn" where
  "commit env c = (if commit_fails env then Inl SqliteError else Inr (c\<lparr>committed := working c\<rparr>))"

definition close :: "conn \<Rightarrow> db" where
  "close c = committed c"

section \<open>Saving a contribution\<close>

text \<open>
  The dictionary \<open>st.session_state.location_data\<close>: it always has these four keys, so
  \<open>location_data.get('latitude')\<close> is the field. The key \<open>'method'\<close> is the field
  \<open>method_tag\<close> (\<open>method\<close> is a keyword of Isabelle): \<open>None\<close>, \<open>'GPS'\<close>, \<open>'Manual'\<close>
  or \<open>'IP'\<close>.
\<close>

record location_data =
  latitude :: pyval
  longitude :: pyval
  address :: pystr
  method_tag :: "pystr option"

text \<open>An uploaded file: its \<open>name\<close> and the bytes \<open>read()\<close> returns.\<close>

record uploaded_file =
  uf_name :: pystr
  uf_content :: "nat list"

definition insert_temple :: "pystr \<Rightarrow> pystr \<Rightarrow> pyval \<Rightarrow> pyval \<Rightarrow> pystr \<Rightarrow> pystr \<Rightarrow> db \<Rightarrow> db" where
  "insert_temple nm addr lat lon descr contributor d =
     d\<lparr>temples := temples d @
       [\<lparr>t_name = nm, t_location_address = Some addr, t_latitude = lat, t_longitude = lon,
         t_location_accuracy = None, t_built_year = None, t_deity = None,
         t_architecture_style = None, t_description = Some descr,
         t_contributor_name = Some contributor\<rparr>]\<rparr>"

definition insert_event :: "pystr \<Rightarrow> pystr \<Rightarrow> pyval \<Rightarrow> pyval \<Rightarrow> pystr \<Rightarrow> db \<Rightarrow> db" where
  "insert_event ttl descr lat lon contributor d =
     d\<lparr>historical_events := historical_events d @
       [\<lparr>e_temple_id = None, e_event_date = None, e_event_title = Some ttl,
         e_event_description = Some descr, e_latitude = lat, e_longitude = lon,
         e_contributor_name = Some contributor\<rparr>]\<rparr>"

definition contribution_of ::
  "pystr \<Rightarrow> pystr \<Rightarrow> pystr \<Rightarrow> location_data \<Rightarrow> pystr \<Rightarrow> uploaded_file \<Rightarrow> contribution_row" where
  "contribution_of ttl ct descr ld contributor_name f =
     (let file_data = uf_content f; file_size = length file_data
      in \<lparr>c_title = ttl, c_content_type = ct, c_description = Some descr,
          c_latitude = latitude ld, c_longitude = longitude ld,
          c_location_address = Some (address ld),
          c_contributor_name = Some (str_or contributor_name (lit ''Anonymous'')),
          c_file_data = Some file_data, c_filename = Some (uf_name f),
          c_file_size = Some file_size\<rparr>)"

definition insert_contribution :: "contribution_row \<Rightarrow> db \<Rightarrow> db" where
  "insert_contribution r d = d\<lparr>content_contributions := content_contributions d @ [r]\<rparr>"

text \<open>
  The \<open>for uploaded_file in uploaded_files\<close> loop. The state is the connection and
  \<open>success_count\<close>; the first component of the result is the exception that ended the
  loop, if one did. Every \<open>execute\<close> before this one succeeded and added one to
  \<open>success_count\<close>, so \<open>success_count\<close> is also the number of the \<open>execute\<close> call.
  Only the coordinates can be of a type SQLite does not bind: the other parameters are
  \<open>str\<close>, \<open>bytes\<close> and \<open>int\<close>.
\<close>

fun insert_files ::
  "storage_env \<Rightarrow> pystr \<Rightarrow> pystr \<Rightarrow> pystr \<Rightarrow> location_data \<Rightarrow> pystr \<Rightarrow>
   uploaded_file list \<Rightarrow> conn \<times> nat \<Rightarrow> py_error option \<times> conn \<times> nat" where
  "insert_files env ttl ct descr ld contributor_name [] (c, success_count) =
     (None, c, success_count)"
| "insert_files env ttl ct descr ld contributor_name (f # fs) (c, success_count) =
     (case execute env success_count [latitude ld, longitude ld]
             (insert_contribution (contribution_of ttl ct descr ld contributor_name f)) c of
        Inl e \<Rightarrow> (Some e, c, success_count)
      | Inr c' \<Rightarrow>
          insert_files env ttl ct descr ld contributor_name fs (c', success_count + 1))"

text \<open>The body of the \<open>try\<close> block up to, not including, \<open>conn.commit()\<close>.\<close>

definition save_inserts ::
  "storage_env \<Rightarrow> conn \<Rightarrow> pystr \<Rightarrow> pystr \<Rightarrow> pystr \<Rightarrow> location_data \<Rightarrow> pystr \<Rightarrow>
   uploaded_file list option \<Rightarrow> py_error option \<times> conn \<times> nat" where
  "save_inserts env c contribution_type ttl descr ld contributor_name uploaded_files =
     (if py_in (lit ''Temple Information'') contribution_type then
        (case execute env 0 [latitude ld, longitude ld]
                (insert_temple ttl (address ld) (latitude ld) (longitude ld) descr
                   (str_or contributor_name (lit ''Anonymous''))) c of
           Inl e \<Rightarrow> (Some e, c, 0)
         | Inr c' \<Rightarrow> (None, c', 1))
      else if py_in (lit ''Historical Event'') contribution_type then
        (case execute env 0 [latitude ld, longitude ld]
                (insert_event ttl descr (latitude ld) (longitude ld)
                   (str_or contributor_name (lit ''Anonymous''))) c of
           Inl e \<Rightarrow> (Some e, c, 0)
         | Inr c' \<Rightarrow> (None, c', 1))
      else
        (case uploaded_files of
           None \<Rightarrow> (None, c, 0)
         | Some fs \<Rightarrow>
             if fs \<noteq> [] then insert_files env ttl contribution_type descr ld contributor_name fs (c, 0)
             else (None, c, 0)))"

text \<open>
  \<open>save_contribution\<close>: what it returns (\<open>success_count\<close>), the database once the
  connection is closed, and the exception \<open>st.error\<close> reported, if any. Opening the
  connection, which the code does before the \<open>try\<close>, is taken to succeed.
\<close>

record save_result =
  success_count :: nat
  saved_db :: db
  save_error :: "py_error option"

definition save_contribution ::
  "storage_env \<Rightarrow> db \<Rightarrow> pystr \<Rightarrow> pystr \<Rightarrow> pystr \<Rightarrow> location_data \<Rightarrow> pystr \<Rightarrow>
   uploaded_file list option \<Rightarrow> save_result" where
  "save_contribution env d contribution_type ttl descr ld contributor_name uploaded_files =
     (case save_inserts env (connect d) contribution_type ttl descr ld contributor_name
             uploaded_files of
        (Some e, c, n) \<Rightarrow> \<lparr>success_count = 0, saved_db = close c, save_error = Some e\<rparr>
      | (None, c, n) \<Rightarrow>
          (case commit env c of
             Inl e \<Rightarrow> \<lparr>success_count = 0, saved_db = close c, save_error = Some e\<rparr>
           | Inr c' \<Rightarrow> \<lparr>success_count = n, saved_db = close c', save_error = None\<rparr>))"

section \<open>Resolving a location\<close>














section \<open>The upload form\<close>

text \<open>
  The five options of the \<open>selectbox\<close>. Each label starts with a pictograph: the code
  points U+1F4F8, U+1F3B5, U+1F4C4, U+1F3DB U+FE0F and U+1F4DA.
\<close>

definition photos_option :: pystr where
  "photos_option = 128248 # lit '' Upload Photos/Images''"

definition audio_option :: pystr where
  "audio_option = 127925 # lit '' Share Audio (Prayers, Stories, etc.)''"

definition documents_option :: pystr where
  "documents_option = 128196 # lit '' Upload Documents/Texts''"

definition temple_option :: pystr where
  "temple_option = 127963 # 65039 # lit '' Add New Temple Information''"

definition event_option :: pystr where
  "event_option = 128218 # lit '' Share Historical Event/Story''"

definition contribution_types :: "pystr list" where
  "contribution_types =
     [photos_option, audio_option, documents_option, temple_option, event_option]"






section \<open>Browsing\<close>











section \<open>Observations and sample data\<close>

text \<open>
  The number of \<open>INSERT\<close> statements \<open>save_contribution\<close> executes for a submission when
  none of them raises: one for a temple or an event, one per file otherwise.
\<close>

definition inserts_of :: "pystr \<Rightarrow> uploaded_file list option \<Rightarrow> nat" where
  "inserts_of contribution_type uploaded_files =
     (if py_in (lit ''Temple Information'') contribution_type \<or>
         py_in (lit ''Historical Event'') contribution_type then 1
      else case uploaded_files of None \<Rightarrow> 0 | Some fs \<Rightarrow> length fs)"

text \<open>The rows a table has gained between two states of the database.\<close>

definition new_temples :: "db \<Rightarrow> db \<Rightarrow> temple_row list" where
  "new_temples d d' = drop (length (temples d)) (temples d')"

definition new_contributions :: "db \<Rightarrow> db \<Rightarrow> contribution_row list" where
  "new_contributions d d' = drop (length (content_contributions d)) (content_contributions d')"

definition new_events :: "db \<Rightarrow> db \<Rightarrow> event_row list" where
  "new_events d d' = drop (length (historical_events d)) (historical_events d')"


text \<open>Sample data: a storage that does not fail, an empty database, a location, files.\<close>

definition reliable_storage :: storage_env where
  "reliable_storage = \<lparr>execute_fails = (\<lambda>k. False), commit_fails = False\<rparr>"

definition empty_db :: db where
  "empty_db = \<lparr>temples = [], temple_media = [], content_contributions = [],
               historical_events = []\<rparr>"

definition chennai :: location_data where
  "chennai = \<lparr>latitude = PNum 13.0827, longitude = PNum 80.2707,
              address = lit ''Chennai'', method_tag = Some (lit ''Manual'')\<rparr>"

definition bell_photo :: uploaded_file where
  "bell_photo = \<lparr>uf_name = lit ''bell.jpg'', uf_content = [255, 216, 255]\<rparr>"

definition gate_photo :: uploaded_file where
  "gate_photo = \<lparr>uf_name = lit ''gate.png'', uf_content = [137, 80]\<rparr>"



text \<open>A storage whose second \<open>execute\<close> raises.\<close>

definition second_insert_fails :: storage_env where
  "second_insert_fails = \<lparr>execute_fails = (\<lambda>k. k = 1), commit_fails = False\<rparr>"









section \<open>Auxiliary facts\<close>

lemma execute_ok:
  "list_all bindable ps \<Longrightarrow> \<not> execute_fails env k \<Longrightarrow>
   execute env k ps ins c = Inr (c\<lparr>working := ins (working c)\<rparr>)"
  by (simp add: execute_def)

lemma execute_raises:
  "\<not> list_all bindable ps \<or> execute_fails env k \<Longrightarrow> execute env k ps ins c = Inl SqliteError"
  by (auto simp: execute_def)

lemma execute_cases:
  "execute env k ps ins c = Inl SqliteError \<or>
   execute env k ps ins c = Inr (c\<lparr>working := ins (working c)\<rparr>)"
  by (simp add: execute_def)

lemma insert_files_ok:
  assumes "bindable (latitude ld)" and "bindable (longitude ld)"
    and "\<forall>k. n \<le> k \<and> k < n + length fs \<longrightarrow> \<not> execute_fails env k"
  shows "insert_files env t ct descr ld cn fs (c, n) =
           (None,
            c\<lparr>working := (working c)\<lparr>content_contributions :=
                 content_contributions (working c) @ map (contribution_of t ct descr ld cn) fs\<rparr>\<rparr>,
            n + length fs)"
  using assms
proof (induction fs arbitrary: c n)
  case Nil
  then show ?case by simp
next
  case (Cons f fs)
  have ex: "execute env n [latitude ld, longitude ld]
              (insert_contribution (contribution_of t ct descr ld cn f)) c =
            Inr (c\<lparr>working := insert_contribution (contribution_of t ct descr ld cn f) (working c)\<rparr>)"
    using Cons.prems by (intro execute_ok) simp_all
  have rest: "\<forall>k. Suc n \<le> k \<and> k < Suc n + length fs \<longrightarrow> \<not> execute_fails env k"
    using Cons.prems(3) by simp
  show ?case
    using Cons.IH [OF Cons.prems(1,2) rest] ex
    by (simp add: insert_contribution_def)
qed

lemma insert_files_raises:
  assumes "fs \<noteq> []"
    and "\<not> bindable (latitude ld) \<or> \<not> bindable (longitude ld) \<or>
         (\<exists>k. n \<le> k \<and> k < n + length fs \<and> execute_fails env k)"
  shows "fst (insert_files env t ct descr ld cn fs (c, n)) = Some SqliteError"
  using assms
proof (induction fs arbitrary: c n)
  case Nil
  then show ?case by simp
next
  case (Cons f fs)
  let ?e = "execute env n [latitude ld, longitude ld]
              (insert_contribution (contribution_of t ct descr ld cn f)) c"
  show ?case
  proof (cases "list_all bindable [latitude ld, longitude ld] \<and> \<not> execute_fails env n")
    case False
    then have "?e = Inl SqliteError" by (intro execute_raises) auto
    then show ?thesis by simp
  next
    case True
    then have ex: "?e = Inr (c\<lparr>working := insert_contribution (contribution_of t ct descr ld cn f) (working c)\<rparr>)"
      by (intro execute_ok) simp_all
    from True Cons.prems(2) obtain k where k: "n \<le> k" "k < n + length (f # fs)" "execute_fails env k"
      by auto
    with True have "Suc n \<le> k" by (cases "k = n") auto
    with k have later: "\<exists>k. Suc n \<le> k \<and> k < Suc n + length fs \<and> execute_fails env k" by auto
    then have "fs \<noteq> []" by auto
    from Cons.IH [OF this, of "Suc n"] later ex show ?thesis by simp
  qed
qed

lemma insert_files_committed:
  "committed (fst (snd (insert_files env t ct descr ld cn fs (c, n)))) = committed c"
proof (induction fs arbitrary: c n)
  case Nil
  show ?case by simp
next
  case (Cons f fs)
  from execute_cases [of env n "[latitude ld, longitude ld]"
         "insert_contribution (contribution_of t ct descr ld cn f)" c]
  show ?case
    by (auto simp: Cons.IH)
qed

lemma insert_files_error:
  "fst (insert_files env t ct descr ld cn fs (c, n)) \<in> {None, Some SqliteError}"
proof (induction fs arbitrary: c n)
  case Nil
  show ?case by simp
next
  case (Cons f fs)
  let ?ins = "insert_contribution (contribution_of t ct descr ld cn f)"
  from execute_cases [of env n "[latitude ld, longitude ld]" ?ins c]
  show ?case
  proof
    assume "execute env n [latitude ld, longitude ld] ?ins c = Inl SqliteError"
    then show ?thesis by simp
  next
    assume "execute env n [latitude ld, longitude ld] ?ins c = Inr (c\<lparr>working := ?ins (working c)\<rparr>)"
    then show ?thesis
      using Cons.IH [of "c\<lparr>working := ?ins (working c)\<rparr>" "Suc n"] by simp
  qed
qed

lemma save_inserts_error:
  "fst (save_inserts env c ct t descr ld cn ufs) \<in> {None, Some SqliteError}"
proof -
  have a: "\<And>ins. fst (case execute env 0 [latitude ld, longitude ld] ins c of
               Inl e \<Rightarrow> (Some e, c, 0::nat) | Inr c' \<Rightarrow> (None, c', 1)) \<in> {None, Some SqliteError}"
    subgoal for ins
      using execute_cases [of env 0 "[latitude ld, longitude ld]" ins c] by auto
    done
  show ?thesis
    unfolding save_inserts_def
    using a insert_files_error [of env t ct descr ld cn _ c 0]
    by (simp split: option.split)
qed

lemma save_inserts_committed:
  "committed (fst (snd (save_inserts env c ct t descr ld cn ufs))) = committed c"
proof -
  have a: "\<And>ins. committed (fst (snd (case execute env 0 [latitude ld, longitude ld] ins c of
               Inl e \<Rightarrow> (Some e, c, 0::nat) | Inr c' \<Rightarrow> (None, c', 1)))) = committed c"
    subgoal for ins
      using execute_cases [of env 0 "[latitude ld, longitude ld]" ins c] by auto
    done
  show ?thesis
    unfolding save_inserts_def
    by (simp add: a insert_files_committed split: option.split)
qed

lemma save_rollback:
  assumes "save_error (save_contribution env d ct t descr ld cn ufs) \<noteq> None"
  shows "success_count (save_contribution env d ct t descr ld cn ufs) = 0 \<and>
         saved_db (save_contribution env d ct t descr ld cn ufs) = d"
proof -
  obtain err c n where si: "save_inserts env (connect d) ct t descr ld cn ufs = (err, c, n)"
    by (cases "save_inserts env (connect d) ct t descr ld cn ufs") auto
  from save_inserts_committed [of env "connect d" ct t descr ld cn ufs] si
  have cm: "committed c = d" by (simp add: connect_def)
  show ?thesis
    using assms cm
    by (auto simp: save_contribution_def si close_def commit_def split: option.splits if_splits)
qed

lemma save_files_ok:
  assumes "\<not> py_in (lit ''Temple Information'') ct" and "\<not> py_in (lit ''Historical Event'') ct"
    and "bindable (latitude ld)" and "bindable (longitude ld)"
    and "\<forall>k<length fs. \<not> execute_fails env k" and "\<not> commit_fails env"
  shows "save_contribution env d ct t descr ld cn (Some fs) =
           \<lparr>success_count = length fs,
            saved_db = d\<lparr>content_contributions :=
                          content_contributions d @ map (contribution_of t ct descr ld cn) fs\<rparr>,
            save_error = None\<rparr>"
proof -
  have "\<forall>k. 0 \<le> k \<and> k < 0 + length fs \<longrightarrow> \<not> execute_fails env k"
    using assms(5) by simp
  from insert_files_ok [OF assms(3,4) this]
  show ?thesis
    using assms(1,2,6)
    by (simp add: save_contribution_def save_inserts_def commit_def close_def connect_def)
qed

lemma save_temple_ok:
  assumes "py_in (lit ''Temple Information'') ct"
    and "bindable (latitude ld)" and "bindable (longitude ld)"
    and "\<not> execute_fails env 0" and "\<not> commit_fails env"
  shows "save_contribution env d ct t descr ld cn ufs =
           \<lparr>success_count = 1,
            saved_db = insert_temple t (address ld) (latitude ld) (longitude ld) descr
                         (str_or cn (lit ''Anonymous'')) d,
            save_error = None\<rparr>"
  using assms
  by (simp add: save_contribution_def save_inserts_def execute_def commit_def close_def
      connect_def)

lemma save_event_ok:
  assumes "\<not> py_in (lit ''Temple Information'') ct" and "py_in (lit ''Historical Event'') ct"
    and "bindable (latitude ld)" and "bindable (longitude ld)"
    and "\<not> execute_fails env 0" and "\<not> commit_fails env"
  shows "save_contribution env d ct t descr ld cn ufs =
           \<lparr>success_count = 1,
            saved_db = insert_event t descr (latitude ld) (longitude ld)
                         (str_or cn (lit ''Anonymous'')) d,
            save_error = None\<rparr>"
  using assms
  by (simp add: save_contribution_def save_inserts_def execute_def commit_def close_def
      connect_def)

lemma save_raises:
  assumes "(0 < inserts_of ct ufs \<and> (\<not> bindable (latitude ld) \<or> \<not> bindable (longitude ld))) \<or>
           (\<exists>k<inserts_of ct ufs. execute_fails env k) \<or> commit_fails env"
  shows "save_error (save_contribution env d ct t descr ld cn ufs) = Some SqliteError"
proof (cases "fst (save_inserts env (connect d) ct t descr ld cn ufs)")
  case (Some e)
  have "e = SqliteError"
    using Some save_inserts_error [of env "connect d" ct t descr ld cn ufs] by simp
  with Some show ?thesis
    by (cases "save_inserts env (connect d) ct t descr ld cn ufs")
       (simp add: save_contribution_def)
next
  case None
  have nofail: "\<not> ((0 < inserts_of ct ufs \<and>
                     (\<not> bindable (latitude ld) \<or> \<not> bindable (longitude ld))) \<or>
                   (\<exists>k<inserts_of ct ufs. execute_fails env k))"
  proof
    assume ex: "(0 < inserts_of ct ufs \<and>
                  (\<not> bindable (latitude ld) \<or> \<not> bindable (longitude ld))) \<or>
                (\<exists>k<inserts_of ct ufs. execute_fails env k)"
    show False
    proof (cases "py_in (lit ''Temple Information'') ct \<or> py_in (lit ''Historical Event'') ct")
      case True
      with ex have "\<not> bindable (latitude ld) \<or> \<not> bindable (longitude ld) \<or> execute_fails env 0"
        by (auto simp: inserts_of_def)
      with True None show False
        by (auto simp: save_inserts_def execute_def split: if_splits)
    next
      case False
      then have io: "inserts_of ct ufs = (case ufs of None \<Rightarrow> 0 | Some fs \<Rightarrow> length fs)"
        by (simp add: inserts_of_def)
      from ex have "0 < inserts_of ct ufs" by auto
      with io obtain fs where fs: "ufs = Some fs" and ne: "fs \<noteq> []"
        by (cases ufs) auto
      from ex io fs
      have bad: "\<not> bindable (latitude ld) \<or> \<not> bindable (longitude ld) \<or>
                 (\<exists>k<length fs. execute_fails env k)"
        by auto
      from bad have "\<not> bindable (latitude ld) \<or> \<not> bindable (longitude ld) \<or>
                     (\<exists>k. 0 \<le> k \<and> k < 0 + length fs \<and> execute_fails env k)"
        by auto
      from insert_files_raises [OF ne this]
      have "fst (insert_files env t ct descr ld cn fs (connect d, 0)) = Some SqliteError" .
      with False fs ne None show False
        by (simp add: save_inserts_def)
    qed
  qed
  with assms have "commit_fails env" by blast
  with None show ?thesis
    by (cases "save_inserts env (connect d) ct t descr ld cn ufs")
       (simp add: save_contribution_def commit_def)
qed

lemma lit_eq_iff: "lit a = lit b \<longleftrightarrow> a = b"
  unfolding lit_def by (rule inj_map_eq_map) (rule inj_of_char)

lemma lit_empty_iff: "lit a = [] \<longleftrightarrow> a = []"
  by (simp add: lit_def)

lemma photos_option_kind:
  "\<not> py_in (lit ''Temple Information'') photos_option \<and>
   \<not> py_in (lit ''Historical Event'') photos_option \<and>
   py_in (lit ''Photos/Images'') photos_option"
  by (simp add: photos_option_def lit_def)

lemma audio_option_kind:
  "\<not> py_in (lit ''Temple Information'') audio_option \<and>
   \<not> py_in (lit ''Historical Event'') audio_option \<and>
   \<not> py_in (lit ''Photos/Images'') audio_option \<and>
   py_in (lit ''Audio'') audio_option"
  by (simp add: audio_option_def lit_def)

lemma documents_option_kind:
  "\<not> py_in (lit ''Temple Information'') documents_option \<and>
   \<not> py_in (lit ''Historical Event'') documents_option \<and>
   \<not> py_in (lit ''Photos/Images'') documents_option \<and>
   \<not> py_in (lit ''Audio'') documents_option \<and>
   py_in (lit ''Documents'') documents_option"
  by (simp add: documents_option_def lit_def)

lemma temple_option_kind:
  "py_in (lit ''Temple Information'') temple_option \<and>
   \<not> py_in (lit ''Photos/Images'') temple_option \<and>
   \<not> py_in (lit ''Audio'') temple_option \<and>
   \<not> py_in (lit ''Documents'') temple_option"
  by (simp add: temple_option_def lit_def)






lemma strip_samples:
  "strip (lit ''Temple Bell Ritual'') \<noteq> []" "strip (lit ''Annual ritual'') \<noteq> []"
  "strip [] = []" "strip (lit ''  '') = []"
  by (simp_all add: strip_def lit_def py_isspace_def)



lemma save_ignores_files:
  assumes "py_in (lit ''Temple Information'') ct \<or> py_in (lit ''Historical Event'') ct"
  shows "save_contribution env d ct t descr ld cn ufs =
         save_contribution env d ct t descr ld cn None"
  using assms by (auto simp: save_contribution_def save_inserts_def)

lemma save_keeps_file_tables:
  assumes "py_in (lit ''Temple Information'') ct \<or> py_in (lit ''Historical Event'') ct"
  shows "content_contributions (saved_db (save_contribution env d ct t descr ld cn ufs)) =
           content_contributions d \<and>
         temple_media (saved_db (save_contribution env d ct t descr ld cn ufs)) =
           temple_media d"
  using assms
  by (auto simp: save_contribution_def save_inserts_def execute_def commit_def close_def
      connect_def insert_temple_def insert_event_def)

lemma save_db_cases:
  "saved_db (save_contribution env d ct t descr ld cn ufs) = d \<or>
   saved_db (save_contribution env d ct t descr ld cn ufs) =
     insert_temple t (address ld) (latitude ld) (longitude ld) descr
       (str_or cn (lit ''Anonymous'')) d \<or>
   saved_db (save_contribution env d ct t descr ld cn ufs) =
     insert_event t descr (latitude ld) (longitude ld) (str_or cn (lit ''Anonymous'')) d \<or>
   (\<exists>fs. saved_db (save_contribution env d ct t descr ld cn ufs) =
      d\<lparr>content_contributions :=
          content_contributions d @ map (contribution_of t ct descr ld cn) fs\<rparr>)"
proof (cases "save_error (save_contribution env d ct t descr ld cn ufs)")
  case (Some e)
  then have "save_error (save_contribution env d ct t descr ld cn ufs) \<noteq> None" by simp
  from save_rollback [OF this] show ?thesis by simp
next
  case None
  with save_raises [of ct ufs ld env d t descr cn]
  have nf: "\<not> (0 < inserts_of ct ufs \<and>
                (\<not> bindable (latitude ld) \<or> \<not> bindable (longitude ld)))"
    and ne: "\<not> (\<exists>k<inserts_of ct ufs. execute_fails env k)"
    and nc: "\<not> commit_fails env"
    by auto
  show ?thesis
  proof (cases "py_in (lit ''Temple Information'') ct")
    case True
    with nf ne have "bindable (latitude ld)" "bindable (longitude ld)" "\<not> execute_fails env 0"
      by (auto simp: inserts_of_def)
    from save_temple_ok [OF True this nc] show ?thesis by simp
  next
    case nt: False
    show ?thesis
    proof (cases "py_in (lit ''Historical Event'') ct")
      case True
      with nf ne have "bindable (latitude ld)" "bindable (longitude ld)" "\<not> execute_fails env 0"
        by (auto simp: inserts_of_def)
      from save_event_ok [OF nt True this nc] show ?thesis by simp
    next
      case nh: False
      show ?thesis
      proof (cases "\<exists>fs. ufs = Some fs \<and> fs \<noteq> []")
        case True
        then obtain fs where fs: "ufs = Some fs" "fs \<noteq> []" by blast
        with nt nh have "inserts_of ct ufs = length fs" by (simp add: inserts_of_def)
        with nf ne fs have "bindable (latitude ld)" "bindable (longitude ld)"
          "\<forall>k<length fs. \<not> execute_fails env k"
          by auto
        from save_files_ok [OF nt nh this nc] fs show ?thesis by auto
      next
        case False
        then have "ufs = None \<or> ufs = Some []" by (cases ufs) auto
        with nt nh nc have "saved_db (save_contribution env d ct t descr ld cn ufs) = d"
          by (auto simp: save_contribution_def save_inserts_def commit_def close_def
              connect_def)
        then show ?thesis by simp
      qed
    qed
  qed
qed

lemma new_temples_saved:
  "new_temples d (saved_db (save_contribution env d ct t descr ld cn ufs)) = [] \<or>
   new_temples d (saved_db (save_contribution env d ct t descr ld cn ufs)) =
     [\<lparr>t_name = t, t_location_address = Some (address ld), t_latitude = latitude ld,
       t_longitude = longitude ld, t_location_accuracy = None, t_built_year = None,
       t_deity = None, t_architecture_style = None, t_description = Some descr,
       t_contributor_name = Some (str_or cn (lit ''Anonymous''))\<rparr>]"
  using save_db_cases [of env d ct t descr ld cn ufs]
  by (auto simp: new_temples_def insert_temple_def insert_event_def)

lemma new_events_saved:
  "new_events d (saved_db (save_contribution env d ct t descr ld cn ufs)) = [] \<or>
   new_events d (saved_db (save_contribution env d ct t descr ld cn ufs)) =
     [\<lparr>e_temple_id = None, e_event_date = None, e_event_title = Some t,
       e_event_description = Some descr, e_latitude = latitude ld,
       e_longitude = longitude ld,
       e_contributor_name = Some (str_or cn (lit ''Anonymous''))\<rparr>]"
  using save_db_cases [of env d ct t descr ld cn ufs]
  by (auto simp: new_events_def insert_temple_def insert_event_def)

lemma new_contributions_saved:
  "\<exists>fs. new_contributions d (saved_db (save_contribution env d ct t descr ld cn ufs)) =
     map (contribution_of t ct descr ld cn) fs"
proof -
  from save_db_cases [of env d ct t descr ld cn ufs]
  consider "new_contributions d (saved_db (save_contribution env d ct t descr ld cn ufs)) = []"
    | fs where "new_contributions d (saved_db (save_contribution env d ct t descr ld cn ufs)) =
         map (contribution_of t ct descr ld cn) fs"
    by (auto simp: new_contributions_def insert_temple_def insert_event_def)
  then show ?thesis
  proof cases
    case 1
    then have "new_contributions d (saved_db (save_contribution env d ct t descr ld cn ufs)) =
         map (contribution_of t ct descr ld cn) []" by simp
    then show ?thesis by blast
  next
    case 2
    then show ?thesis by blast
  qed
qed

lemma blank_temple_saved:
  "saved_db (save_contribution reliable_storage empty_db temple_option
      (lit ''Kapaleeshwarar'') (lit ''Annual ritual'') chennai cn None) =
   insert_temple (lit ''Kapaleeshwarar'') (address chennai) (latitude chennai)
     (longitude chennai) (lit ''Annual ritual'') (str_or cn (lit ''Anonymous'')) empty_db"
proof -
  have "py_in (lit ''Temple Information'') temple_option"
    using temple_option_kind by simp
  moreover have "bindable (latitude chennai)" "bindable (longitude chennai)"
    by (simp_all add: chennai_def)
  moreover have "\<not> execute_fails reliable_storage 0" "\<not> commit_fails reliable_storage"
    by (simp_all add: reliable_storage_def)
  ultimately show ?thesis
    by (simp add: save_temple_ok)
qed














section \<open>Properties of the specification\<close>





text \<open>
  C4. When a statement of a submission raises (the binding of a coordinate, one of the
  inserts the submission makes, in particular any insert of the loop over the files,
  or the commit), \<open>save_contribution\<close> returns 0 and the database, once the connection
  is closed, is the database as it was before: none of the rows inserted before the
  failure is committed. The exception is reported, not raised.
\<close>

theorem failed_save_commits_nothing:
  assumes "(0 < inserts_of ct ufs \<and>
              (\<not> bindable (latitude ld) \<or> \<not> bindable (longitude ld))) \<or>
           (\<exists>k<inserts_of ct ufs. execute_fails env k) \<or> commit_fails env"
  shows "success_count (save_contribution env d ct t descr ld cn ufs) = 0 \<and>
         saved_db (save_contribution env d ct t descr ld cn ufs) = d \<and>
         save_error (save_contribution env d ct t descr ld cn ufs) = Some SqliteError"
proof -
  have e: "save_error (save_contribution env d ct t descr ld cn ufs) = Some SqliteError"
    using assms by (rule save_raises)
  then have "save_error (save_contribution env d ct t descr ld cn ufs) \<noteq> None"
    by simp
  from save_rollback [OF this] e show ?thesis
    by simp
qed

theorem failed_save_commits_nothing_witness:
  "execute_fails second_insert_fails 1 \<and>
   1 < inserts_of photos_option (Some [bell_photo, gate_photo]) \<and>
   success_count (save_contribution second_insert_fails empty_db photos_option
     (lit ''Temple Bell Ritual'') (lit ''Annual ritual'') chennai []
     (Some [bell_photo, gate_photo])) = 0 \<and>
   saved_db (save_contribution second_insert_fails empty_db photos_option
     (lit ''Temple Bell Ritual'') (lit ''Annual ritual'') chennai []
     (Some [bell_photo, gate_photo])) = empty_db"
proof -
  have h1: "execute_fails second_insert_fails 1"
    by (simp add: second_insert_fails_def)
  have h2: "1 < inserts_of photos_option (Some [bell_photo, gate_photo])"
    using photos_option_kind by (simp add: inserts_of_def)
  from h1 h2
  have h: "(0 < inserts_of photos_option (Some [bell_photo, gate_photo]) \<and>
              (\<not> bindable (latitude chennai) \<or> \<not> bindable (longitude chennai))) \<or>
           (\<exists>k<inserts_of photos_option (Some [bell_photo, gate_photo]).
              execute_fails second_insert_fails k) \<or>
           commit_fails second_insert_fails"
    by blast
  from failed_save_commits_nothing [OF h, of empty_db "lit ''Temple Bell Ritual''"
      "lit ''Annual ritual''" "[]"] h1 h2
  show ?thesis by blast
qed

text \<open>
  C10. For a submission whose type contains "Temple Information" or "Historical
  Event", \<open>save_contribution\<close> does not look at the files: its result is the result for
  no files at all, and the two tables with file columns, \<open>content_contributions\<close> and
  \<open>temple_media\<close>, are left as they were. When no statement raises, it returns 1 and
  appends exactly one row, to \<open>temples\<close> in the first case and to \<open>historical_events\<close>
  otherwise; the row has no column for file data, file name or size.
\<close>

theorem temple_and_event_ignore_files:
  assumes "py_in (lit ''Temple Information'') ct \<or> py_in (lit ''Historical Event'') ct"
  shows "save_contribution env d ct t descr ld cn ufs =
           save_contribution env d ct t descr ld cn None \<and>
         content_contributions (saved_db (save_contribution env d ct t descr ld cn ufs)) =
           content_contributions d \<and>
         temple_media (saved_db (save_contribution env d ct t descr ld cn ufs)) =
           temple_media d \<and>
         (bindable (latitude ld) \<and> bindable (longitude ld) \<and>
          \<not> execute_fails env 0 \<and> \<not> commit_fails env \<longrightarrow>
          success_count (save_contribution env d ct t descr ld cn ufs) = 1 \<and>
          save_error (save_contribution env d ct t descr ld cn ufs) = None \<and>
          saved_db (save_contribution env d ct t descr ld cn ufs) =
            (if py_in (lit ''Temple Information'') ct then
               d\<lparr>temples := temples d @
                 [\<lparr>t_name = t, t_location_address = Some (address ld),
                   t_latitude = latitude ld, t_longitude = longitude ld,
                   t_location_accuracy = None, t_built_year = None, t_deity = None,
                   t_architecture_style = None, t_description = Some descr,
                   t_contributor_name = Some (str_or cn (lit ''Anonymous''))\<rparr>]\<rparr>
             else
               d\<lparr>historical_events := historical_events d @
                 [\<lparr>e_temple_id = None, e_event_date = None, e_event_title = Some t,
                   e_event_description = Some descr, e_latitude = latitude ld,
                   e_longitude = longitude ld,
                   e_contributor_name = Some (str_or cn (lit ''Anonymous''))\<rparr>]\<rparr>))"
proof -
  let ?s = "save_contribution env d ct t descr ld cn ufs"
  have ok: "success_count ?s = 1 \<and> save_error ?s = None \<and>
          saved_db ?s =
            (if py_in (lit ''Temple Information'') ct then
               d\<lparr>temples := temples d @
                 [\<lparr>t_name = t, t_location_address = Some (address ld),
                   t_latitude = latitude ld, t_longitude = longitude ld,
                   t_location_accuracy = None, t_built_year = None, t_deity = None,
                   t_architecture_style = None, t_description = Some descr,
                   t_contributor_name = Some (str_or cn (lit ''Anonymous''))\<rparr>]\<rparr>
             else
               d\<lparr>historical_events := historical_events d @
                 [\<lparr>e_temple_id = None, e_event_date = None, e_event_title = Some t,
                   e_event_description = Some descr, e_latitude = latitude ld,
                   e_longitude = longitude ld,
                   e_contributor_name = Some (str_or cn (lit ''Anonymous''))\<rparr>]\<rparr>)"
    if b: "bindable (latitude ld)" "bindable (longitude ld)"
      and e: "\<not> execute_fails env 0" and c: "\<not> commit_fails env"
  proof (cases "py_in (lit ''Temple Information'') ct")
    case True
    from save_temple_ok [OF True b e c] True show ?thesis
      by (simp add: insert_temple_def)
  next
    case False
    with assms have ev: "py_in (lit ''Historical Event'') ct" by simp
    from save_event_ok [OF False ev b e c] False show ?thesis
      by (simp add: insert_event_def)
  qed
  from save_ignores_files [OF assms] save_keeps_file_tables [OF assms] ok
  show ?thesis by blast
qed

theorem temple_and_event_ignore_files_witness:
  "py_in (lit ''Temple Information'') temple_option \<and>
   bindable (latitude chennai) \<and> bindable (longitude chennai) \<and>
   \<not> execute_fails reliable_storage 0 \<and> \<not> commit_fails reliable_storage \<and>
   success_count (save_contribution reliable_storage empty_db temple_option
     (lit ''Kapaleeshwarar'') (lit ''Annual ritual'') chennai (lit ''Asha'')
     (Some [bell_photo, gate_photo])) = 1 \<and>
   saved_db (save_contribution reliable_storage empty_db temple_option
     (lit ''Kapaleeshwarar'') (lit ''Annual ritual'') chennai (lit ''Asha'')
     (Some [bell_photo, gate_photo])) =
     \<lparr>temples =
        [\<lparr>t_name = lit ''Kapaleeshwarar'', t_location_address = Some (lit ''Chennai''),
          t_latitude = PNum 13.0827, t_longitude = PNum 80.2707,
          t_location_accuracy = None, t_built_year = None, t_deity = None,
          t_architecture_style = None, t_description = Some (lit ''Annual ritual''),
          t_contributor_name = Some (lit ''Asha'')\<rparr>],
      temple_media = [], content_contributions = [], historical_events = []\<rparr>"
proof -
  have h1: "py_in (lit ''Temple Information'') temple_option"
    using temple_option_kind by simp
  then have h: "py_in (lit ''Temple Information'') temple_option \<or>
                py_in (lit ''Historical Event'') temple_option"
    by simp
  have h2: "bindable (latitude chennai)" and h3: "bindable (longitude chennai)"
    by (simp_all add: chennai_def)
  have h4: "\<not> execute_fails reliable_storage 0" and h5: "\<not> commit_fails reliable_storage"
    by (simp_all add: reliable_storage_def)
  have n: "str_or (lit ''Asha'') (lit ''Anonymous'') = lit ''Asha''"
    by (simp add: str_or_def lit_empty_iff)
  note inst = temple_and_event_ignore_files [OF h, of reliable_storage empty_db
      "lit ''Kapaleeshwarar''" "lit ''Annual ritual''" chennai "lit ''Asha''"
      "Some [bell_photo, gate_photo]"]
  from inst h1 h2 h3 h4 h5
  have a: "success_count (save_contribution reliable_storage empty_db temple_option
     (lit ''Kapaleeshwarar'') (lit ''Annual ritual'') chennai (lit ''Asha'')
     (Some [bell_photo, gate_photo])) = 1"
    by blast
  from inst have "saved_db (save_contribution reliable_storage empty_db temple_option
     (lit ''Kapaleeshwarar'') (lit ''Annual ritual'') chennai (lit ''Asha'')
     (Some [bell_photo, gate_photo])) =
       (if py_in (lit ''Temple Information'') temple_option then
          empty_db\<lparr>temples := temples empty_db @
                 [\<lparr>t_name = lit ''Kapaleeshwarar'', t_location_address = Some (address chennai),
                   t_latitude = latitude chennai, t_longitude = longitude chennai,
                   t_location_accuracy = None, t_built_year = None, t_deity = None,
                   t_architecture_style = None, t_description = Some (lit ''Annual ritual''),
                   t_contributor_name = Some (str_or (lit ''Asha'') (lit ''Anonymous''))\<rparr>]\<rparr>
        else
          empty_db\<lparr>historical_events := historical_events empty_db @
                 [\<lparr>e_temple_id = None, e_event_date = None,
                   e_event_title = Some (lit ''Kapaleeshwarar''),
                   e_event_description = Some (lit ''Annual ritual''),
                   e_latitude = latitude chennai, e_longitude = longitude chennai,
                   e_contributor_name = Some (str_or (lit ''Asha'') (lit ''Anonymous''))\<rparr>]\<rparr>)"
    using h2 h3 h4 h5 by blast
  with h1
  have "saved_db (save_contribution reliable_storage empty_db temple_option
     (lit ''Kapaleeshwarar'') (lit ''Annual ritual'') chennai (lit ''Asha'')
     (Some [bell_photo, gate_photo])) =
       empty_db\<lparr>temples := temples empty_db @
                 [\<lparr>t_name = lit ''Kapaleeshwarar'', t_location_address = Some (address chennai),
                   t_latitude = latitude chennai, t_longitude = longitude chennai,
                   t_location_accuracy = None, t_built_year = None, t_deity = None,
                   t_architecture_style = None, t_description = Some (lit ''Annual ritual''),
                   t_contributor_name = Some (str_or (lit ''Asha'') (lit ''Anonymous''))\<rparr>]\<rparr>"
    by simp
  then have b: "saved_db (save_contribution reliable_storage empty_db temple_option
     (lit ''Kapaleeshwarar'') (lit ''Annual ritual'') chennai (lit ''Asha'')
     (Some [bell_photo, gate_photo])) =
     \<lparr>temples =
        [\<lparr>t_name = lit ''Kapaleeshwarar'', t_location_address = Some (lit ''Chennai''),
          t_latitude = PNum 13.0827, t_longitude = PNum 80.2707,
          t_location_accuracy = None, t_built_year = None, t_deity = None,
          t_architecture_style = None, t_description = Some (lit ''Annual ritual''),
          t_contributor_name = Some (lit ''Asha'')\<rparr>],
      temple_media = [], content_contributions = [], historical_events = []\<rparr>"
    by (simp add: n empty_db_def chennai_def)
  from h1 h2 h3 h4 h5 a b show ?thesis
    by blast
qed



text \<open>
  C5, in the form the code satisfies. In each of the three tables
  \<open>save_contribution\<close> writes to, every row it adds carries as contributor the literal "Anonymous" when the name given is the
  empty string, and the name itself, unchanged, otherwise: a name of whitespace only is
  kept as it is.
\<close>

theorem contributor_name_persisted:
  "(\<forall>r \<in> set (new_temples d (saved_db (save_contribution env d ct t descr ld cn ufs))).
      t_contributor_name r = Some (if cn = [] then lit ''Anonymous'' else cn)) \<and>
   (\<forall>r \<in> set (new_contributions d (saved_db (save_contribution env d ct t descr ld cn ufs))).
      c_contributor_name r = Some (if cn = [] then lit ''Anonymous'' else cn)) \<and>
   (\<forall>r \<in> set (new_events d (saved_db (save_contribution env d ct t descr ld cn ufs))).
      e_contributor_name r = Some (if cn = [] then lit ''Anonymous'' else cn))"
proof -
  have n: "str_or cn (lit ''Anonymous'') = (if cn = [] then lit ''Anonymous'' else cn)"
    by (simp add: str_or_def)
  have a: "\<forall>r \<in> set (new_temples d (saved_db (save_contribution env d ct t descr ld cn ufs))).
      t_contributor_name r = Some (if cn = [] then lit ''Anonymous'' else cn)"
    using new_temples_saved [of d env ct t descr ld cn ufs] n by auto
  obtain fs where "new_contributions d (saved_db (save_contribution env d ct t descr ld cn ufs)) =
     map (contribution_of t ct descr ld cn) fs"
    using new_contributions_saved by blast
  then have b: "\<forall>r \<in> set (new_contributions d
                   (saved_db (save_contribution env d ct t descr ld cn ufs))).
      c_contributor_name r = Some (if cn = [] then lit ''Anonymous'' else cn)"
    using n by (auto simp: contribution_of_def Let_def)
  have c: "\<forall>r \<in> set (new_events d (saved_db (save_contribution env d ct t descr ld cn ufs))).
      e_contributor_name r = Some (if cn = [] then lit ''Anonymous'' else cn)"
    using new_events_saved [of d env ct t descr ld cn ufs] n by auto
  from a b c show ?thesis by blast
qed

theorem contributor_name_persisted_witness:
  "\<lparr>t_name = lit ''Kapaleeshwarar'', t_location_address = Some (lit ''Chennai''),
     t_latitude = PNum 13.0827, t_longitude = PNum 80.2707, t_location_accuracy = None,
     t_built_year = None, t_deity = None, t_architecture_style = None,
     t_description = Some (lit ''Annual ritual''),
     t_contributor_name = Some (lit ''Anonymous'')\<rparr>
     \<in> set (new_temples empty_db (saved_db (save_contribution reliable_storage empty_db
          temple_option (lit ''Kapaleeshwarar'') (lit ''Annual ritual'') chennai [] None))) \<and>
   \<lparr>t_name = lit ''Kapaleeshwarar'', t_location_address = Some (lit ''Chennai''),
     t_latitude = PNum 13.0827, t_longitude = PNum 80.2707, t_location_accuracy = None,
     t_built_year = None, t_deity = None, t_architecture_style = None,
     t_description = Some (lit ''Annual ritual''),
     t_contributor_name = Some (lit ''Asha'')\<rparr>
     \<in> set (new_temples empty_db (saved_db (save_contribution reliable_storage empty_db
          temple_option (lit ''Kapaleeshwarar'') (lit ''Annual ritual'') chennai
          (lit ''Asha'') None)))"
proof -
  let ?row = "\<lambda>c. \<lparr>t_name = lit ''Kapaleeshwarar'', t_location_address = Some (lit ''Chennai''),
     t_latitude = PNum 13.0827, t_longitude = PNum 80.2707, t_location_accuracy = None,
     t_built_year = None, t_deity = None, t_architecture_style = None,
     t_description = Some (lit ''Annual ritual''), t_contributor_name = c\<rparr>"
  have rows: "\<exists>c. new_temples empty_db (saved_db (save_contribution reliable_storage empty_db
          temple_option (lit ''Kapaleeshwarar'') (lit ''Annual ritual'') chennai cn None)) =
        [?row c]" for cn
    by (simp only: blank_temple_saved)
       (simp add: new_temples_def insert_temple_def empty_db_def chennai_def)
  from rows [of "[]"] obtain c1 where
    r1: "new_temples empty_db (saved_db (save_contribution reliable_storage empty_db
          temple_option (lit ''Kapaleeshwarar'') (lit ''Annual ritual'') chennai [] None)) =
        [?row c1]" by blast
  from rows [of "lit ''Asha''"] obtain c2 where
    r2: "new_temples empty_db (saved_db (save_contribution reliable_storage empty_db
          temple_option (lit ''Kapaleeshwarar'') (lit ''Annual ritual'') chennai
          (lit ''Asha'') None)) = [?row c2]" by blast
  from contributor_name_persisted [of empty_db reliable_storage temple_option
      "lit ''Kapaleeshwarar''" "lit ''Annual ritual''" chennai "[]" None] r1
  have "c1 = Some (lit ''Anonymous'')" by simp
  moreover
  from contributor_name_persisted [of empty_db reliable_storage temple_option
      "lit ''Kapaleeshwarar''" "lit ''Annual ritual''" chennai "lit ''Asha''" None] r2
  have "c2 = Some (lit ''Asha'')" by (simp add: lit_empty_iff)
  ultimately show ?thesis
    using r1 r2 by simp
qed

theorem whitespace_contributor_counterexample:
  "strip (lit ''  '') = [] \<and>
   map t_contributor_name (temples (saved_db (save_contribution reliable_storage empty_db
      temple_option (lit ''Kapaleeshwarar'') (lit ''Annual ritual'') chennai (lit ''  '')
      None))) = [Some (lit ''  '')] \<and>
   lit ''  '' \<noteq> lit ''Anonymous''"
  by (simp only: blank_temple_saved)
     (simp add: insert_temple_def empty_db_def str_or_def lit_empty_iff lit_eq_iff
      strip_samples)









end
